theory Spec2Isabelle
  imports Main
begin

section \<open>JavaScript values used by the Filter class\<close>

text \<open>
  \<^verbatim>\<open>String.prototype.split(sep)\<close> with a one-character separator: the pieces between
  the separators, never an empty array (\<^verbatim>\<open>''.split(' ')\<close> is \<^verbatim>\<open>['']\<close>).
\<close>

fun split_on :: "char \<Rightarrow> string \<Rightarrow> string list" where
  "split_on c [] = [[]]"
| "split_on c (x # xs) =
     (if x = c then [] # split_on c xs
      else (case split_on c xs of [] \<Rightarrow> [[x]] | w # ws \<Rightarrow> (x # w) # ws))"

text \<open>\<^verbatim>\<open>Array.prototype.join(sep)\<close> on an array of strings.\<close>

fun join_with :: "string \<Rightarrow> string list \<Rightarrow> string" where
  "join_with sep [] = []"
| "join_with sep [x] = x"
| "join_with sep (x # y # ys) = x @ sep @ join_with sep (y # ys)"

text \<open>
  An array converted to a string (by a template literal, or when it is assigned to a
  DOM string property) is its elements joined by commas.
\<close>

definition array_to_string :: "string list \<Rightarrow> string" where
  "array_to_string xs = join_with '','' xs"

text \<open>\<^verbatim>\<open>Array.prototype.indexOf\<close>: the first index of the element, or \<open>-1\<close>.\<close>

fun indexOf :: "'a list \<Rightarrow> 'a \<Rightarrow> int" where
  "indexOf [] y = - 1"
| "indexOf (x # xs) y =
     (if x = y then 0 else (let i = indexOf xs y in if i < 0 then - 1 else i + 1))"

text \<open>
  \<^verbatim>\<open>xs.splice(start, 1)\<close>, the array it leaves behind. A negative start counts from
  the end of the array, so \<^verbatim>\<open>splice(-1, 1)\<close> removes the last element.
\<close>

definition splice1 :: "int \<Rightarrow> 'a list \<Rightarrow> 'a list" where
  "splice1 start xs =
     (let len = int (length xs);
          actualStart = (if start < 0 then max (len + start) 0 else min start len);
          actualDeleteCount = min (max 1 0) (len - actualStart)
      in take (nat actualStart) xs @ drop (nat (actualStart + actualDeleteCount)) xs)"

text \<open>A value that may be \<^verbatim>\<open>null\<close>, converted to a string.\<close>

definition to_string :: "string option \<Rightarrow> string" where
  "to_string v = (case v of None \<Rightarrow> ''null'' | Some s \<Rightarrow> s)"

subsection \<open>Plain objects with string keys\<close>

text \<open>
  \<^verbatim>\<open>objectFilters\<close> is a plain object: its own properties in insertion order.
  Assigning to an existing key keeps the key's place; assigning an array to
  \<^verbatim>\<open>__proto__\<close> replaces the prototype and creates no own property.
  \<^verbatim>\<open>Object.keys\<close> lists the keys that are array indices first, in ascending numeric
  order, then the other keys in insertion order.
\<close>

type_synonym 'v js_object = "(string \<times> 'v) list"

fun obj_set :: "string \<Rightarrow> 'v \<Rightarrow> 'v js_object \<Rightarrow> 'v js_object" where
  "obj_set k v [] = (if k = ''__proto__'' then [] else [(k, v)])"
| "obj_set k v (p # ps) =
     (if k = ''__proto__'' then p # ps
      else if fst p = k then (k, v) # ps
      else p # obj_set k v ps)"

definition is_digit :: "char \<Rightarrow> bool" where
  "is_digit c = (c \<in> set ''0123456789'')"

definition decimal_value :: "string \<Rightarrow> nat" where
  "decimal_value s = foldl (\<lambda>a c. 10 * a + (of_char c - 48)) 0 s"

definition is_array_index :: "string \<Rightarrow> bool" where
  "is_array_index s =
     (s \<noteq> [] \<and> list_all is_digit s \<and> (s = ''0'' \<or> hd s \<noteq> CHR ''0'')
      \<and> decimal_value s < 4294967295)"

definition obj_entries :: "'v js_object \<Rightarrow> (string \<times> 'v) list" where
  "obj_entries obj =
     sort_key (\<lambda>p. decimal_value (fst p)) (filter (\<lambda>p. is_array_index (fst p)) obj)
     @ filter (\<lambda>p. \<not> is_array_index (fst p)) obj"

definition obj_keys :: "'v js_object \<Rightarrow> string list" where
  "obj_keys obj = map fst (obj_entries obj)"

subsection \<open>URLSearchParams\<close>

text \<open>The list of name-value pairs of a query string, with the methods the class calls.\<close>

type_synonym search_params = "(string \<times> string) list"

definition usp_get :: "string \<Rightarrow> search_params \<Rightarrow> string option" where
  "usp_get n ps = map_of ps n"

definition usp_has :: "string \<Rightarrow> search_params \<Rightarrow> bool" where
  "usp_has n ps = (n \<in> set (map fst ps))"

definition usp_delete :: "string \<Rightarrow> search_params \<Rightarrow> search_params" where
  "usp_delete n ps = filter (\<lambda>p. fst p \<noteq> n) ps"

definition usp_append :: "string \<Rightarrow> string \<Rightarrow> search_params \<Rightarrow> search_params" where
  "usp_append n v ps = ps @ [(n, v)]"

fun usp_set :: "string \<Rightarrow> string \<Rightarrow> search_params \<Rightarrow> search_params" where
  "usp_set n v [] = [(n, v)]"
| "usp_set n v (p # ps) =
     (if fst p = n then (n, v) # usp_delete n ps else p # usp_set n v ps)"

section \<open>The page and the host\<close>

datatype tag_name = SelectTag | InputTag | OtherTag

datatype input_type =
    Hidden | Text | Search | Tel | Url | Email | Password
  | Date | Month | Week | Time | DatetimeLocal | Number | Range | Color
  | Checkbox | Radio | File | Submit | Image | Reset | Button

record option_element =
  ovalue :: string
  selected :: bool

text \<open>
  An element of the document: its kind, its content attributes (names in lower case, as
  the HTML parser stores them), whether it is a descendant of \<^verbatim>\<open>this.$form\<close>, and the
  state a script can change: \<open>dom_value\<close>, the current value of an input whose value is
  not its attribute, \<open>checked\<close>, the checkedness, and \<open>options\<close>, the options of a
  select with their selectedness. Option elements are held in their select and are not
  elements of the document list.
\<close>

record element =
  tagName :: tag_name
  itype :: input_type
  multiple :: bool
  in_form :: bool
  attributes :: "(string \<times> string) list"
  dom_value :: string
  checked :: bool
  options :: "option_element list"

definition getAttribute :: "string \<Rightarrow> element \<Rightarrow> string option" where
  "getAttribute a e = map_of (attributes e) a"

datatype error = TypeError | SyntaxError

text \<open>
  What the Filter instance works on: the document's elements in tree order, whether
  \<^verbatim>\<open>this.$form\<close> was found, \<^verbatim>\<open>this.filterAttr\<close>, \<^verbatim>\<open>this.urlFilters\<close>, the console's
  warnings, and two services of the browser that the class calls and does not define.
  \<open>css\<close> reads a selector text: \<open>None\<close> when the text is no selector (the lookup then
  raises a SyntaxError), otherwise the test whether the element at a position of the
  document, in the document's present state, matches. \<open>sanitize\<close> is the value
  sanitization of an input: given the input's kind and attributes and the string
  assigned to \<^verbatim>\<open>value\<close>, the value the input holds afterwards.
\<close>

record world =
  document :: "element list"
  form_found :: bool
  filterAttr :: string
  urlFilters :: search_params
  console :: "string list"
  css :: "string \<Rightarrow> (element list \<Rightarrow> nat \<Rightarrow> bool) option"
  sanitize :: "element \<Rightarrow> string \<Rightarrow> string"

text \<open>
  \<^verbatim>\<open>querySelector\<close> on the document and on the form: the first element in tree order,
  among all elements or among the form's descendants, that matches the selector; its
  position, or \<open>None\<close> for \<^verbatim>\<open>null\<close>.
\<close>

definition querySelector :: "(element \<Rightarrow> bool) \<Rightarrow> string \<Rightarrow> world \<Rightarrow> error + nat option" where
  "querySelector scope sel w =
     (case css w sel of
        None \<Rightarrow> Inl SyntaxError
      | Some m \<Rightarrow>
          Inr (find (\<lambda>i. scope (document w ! i) \<and> m (document w) i) [0..<length (document w)]))"

definition document_query :: "string \<Rightarrow> world \<Rightarrow> error + nat option" where
  "document_query sel w = querySelector (\<lambda>e. True) sel w"

definition form_query :: "string \<Rightarrow> world \<Rightarrow> error + nat option" where
  "form_query sel w = querySelector in_form sel w"

text \<open>
  The selector texts of the class, the name and the value pasted in as they are:
  \<^verbatim>\<open>[${this.filterAttr}="${type}"]\<close> and \<^verbatim>\<open>[${this.filterAttr}="${type}"][value="${value}"]\<close>.
\<close>

definition sel_filter :: "world \<Rightarrow> string \<Rightarrow> string" where
  "sel_filter w type = ''['' @ filterAttr w @ ''='' @ [CHR 0x22] @ type @ [CHR 0x22] @ '']''"

definition sel_filter_value :: "world \<Rightarrow> string \<Rightarrow> string \<Rightarrow> string" where
  "sel_filter_value w type v =
     sel_filter w type @ ''[value='' @ [CHR 0x22] @ v @ [CHR 0x22] @ '']''"

subsection \<open>Reading and writing a control\<close>

text \<open>
  The \<^verbatim>\<open>value\<close> property. A select reports its first selected option, an input of
  type checkbox or radio its \<^verbatim>\<open>value\<close> attribute (\<^verbatim>\<open>on\<close> without one), any other
  input its current value.
\<close>

fun first_selected :: "option_element list \<Rightarrow> string" where
  "first_selected [] = []"
| "first_selected (x # xs) = (if selected x then ovalue x else first_selected xs)"

definition get_value :: "element \<Rightarrow> string" where
  "get_value e =
     (case tagName e of
        SelectTag \<Rightarrow> first_selected (options e)
      | InputTag \<Rightarrow>
          (if itype e = Checkbox \<or> itype e = Radio
           then (case getAttribute ''value'' e of None \<Rightarrow> ''on'' | Some v \<Rightarrow> v)
           else dom_value e)
      | OtherTag \<Rightarrow> dom_value e)"

text \<open>
  What the class reads of an element and never writes: its kind, its attributes and the
  values of its options.
\<close>

definition static :: "element \<Rightarrow> element" where
  "static e = e\<lparr>dom_value := [], checked := False,
                options := map (\<lambda>opt. opt\<lparr>selected := False\<rparr>) (options e)\<rparr>"

text \<open>
  Assigning the \<^verbatim>\<open>value\<close> property. On a select, every option is deselected and the
  first option with that value, if any, is selected. An input holds what the browser's
  sanitization makes of the string, which depends on the input's type and attributes and
  not on its state.
\<close>

fun select_value :: "string \<Rightarrow> option_element list \<Rightarrow> option_element list" where
  "select_value v [] = []"
| "select_value v (x # xs) =
     (if ovalue x = v
      then x\<lparr>selected := True\<rparr> # map (\<lambda>y. y\<lparr>selected := False\<rparr>) xs
      else x\<lparr>selected := False\<rparr> # select_value v xs)"

definition set_value :: "world \<Rightarrow> string \<Rightarrow> element \<Rightarrow> element" where
  "set_value w v e =
     (case tagName e of
        SelectTag \<Rightarrow> e\<lparr>options := select_value v (options e)\<rparr>
      | InputTag \<Rightarrow> e\<lparr>dom_value := sanitize w (static e) v\<rparr>
      | OtherTag \<Rightarrow> e\<lparr>dom_value := v\<rparr>)"

text \<open>
  Assigning \<^verbatim>\<open>checked = true\<close> to the element at position \<open>j\<close>. When it is a radio
  button, the other radio buttons of its group (the same non-empty name, on the same
  side of the form) lose their checkedness.
\<close>

definition is_radio :: "element \<Rightarrow> bool" where
  "is_radio e = (tagName e = InputTag \<and> itype e = Radio)"

definition same_radio_group :: "element \<Rightarrow> element \<Rightarrow> bool" where
  "same_radio_group a b =
     (is_radio a \<and> is_radio b \<and> getAttribute ''name'' a \<noteq> None
      \<and> getAttribute ''name'' a \<noteq> Some []
      \<and> getAttribute ''name'' b = getAttribute ''name'' a \<and> in_form b = in_form a)"

definition set_checked :: "nat \<Rightarrow> element list \<Rightarrow> element list" where
  "set_checked j es =
     map (\<lambda>i. if i = j then (es ! i)\<lparr>checked := True\<rparr>
               else if same_radio_group (es ! j) (es ! i) then (es ! i)\<lparr>checked := False\<rparr>
               else es ! i)
       [0..<length es]"

section \<open>The Filter class\<close>

datatype filter_type = SelectMultiple | SelectSingle | InputType input_type | NullType

definition checkFilterType :: "element \<Rightarrow> filter_type" where
  "checkFilterType e =
     (case tagName e of
        SelectTag \<Rightarrow> (if multiple e then SelectMultiple else SelectSingle)
      | InputTag \<Rightarrow> InputType (itype e)
      | OtherTag \<Rightarrow> NullType)"

fun input_type_name :: "input_type \<Rightarrow> string" where
  "input_type_name Hidden = ''hidden''"
| "input_type_name Text = ''text''"
| "input_type_name Search = ''search''"
| "input_type_name Tel = ''tel''"
| "input_type_name Url = ''url''"
| "input_type_name Email = ''email''"
| "input_type_name Password = ''password''"
| "input_type_name Date = ''date''"
| "input_type_name Month = ''month''"
| "input_type_name Week = ''week''"
| "input_type_name Time = ''time''"
| "input_type_name DatetimeLocal = ''datetime-local''"
| "input_type_name Number = ''number''"
| "input_type_name Range = ''range''"
| "input_type_name Color = ''color''"
| "input_type_name Checkbox = ''checkbox''"
| "input_type_name Radio = ''radio''"
| "input_type_name File = ''file''"
| "input_type_name Submit = ''submit''"
| "input_type_name Image = ''image''"
| "input_type_name Reset = ''reset''"
| "input_type_name Button = ''button''"

fun filter_type_name :: "filter_type \<Rightarrow> string" where
  "filter_type_name SelectMultiple = ''select-multiple''"
| "filter_type_name SelectSingle = ''select-single''"
| "filter_type_name (InputType t) = input_type_name t"
| "filter_type_name NullType = ''null''"

definition warn :: "filter_type \<Rightarrow> world \<Rightarrow> world" where
  "warn ft w =
     w\<lparr>console := console w @ [''Type '' @ [CHR 0x27] @ filter_type_name ft @ [CHR 0x27]
                                @ '' is not yet supported.'']\<rparr>"

subsection \<open>\<^verbatim>\<open>_parseFiltersFromUrl\<close>\<close>

text \<open>
  The callback of \<^verbatim>\<open>params.forEach\<close>, for the parameters still to come: a lookup that
  raises ends the loop and the function; a name that no element answers to is skipped.
\<close>

fun parse_params :: "world \<Rightarrow> string list js_object \<Rightarrow> search_params \<Rightarrow> error + string list js_object" where
  "parse_params w objectFilters [] = Inr objectFilters"
| "parse_params w objectFilters (param # params) =
     (let type = fst param; VALUES = snd param
      in case document_query (sel_filter w type) w of
           Inl err \<Rightarrow> Inl err
         | Inr None \<Rightarrow> parse_params w objectFilters params
         | Inr (Some isFilterExist) \<Rightarrow>
             parse_params w (obj_set type (split_on CHR '' '' VALUES) objectFilters) params)"

definition parseFiltersFromUrl :: "world \<Rightarrow> search_params \<Rightarrow> error + string list js_object" where
  "parseFiltersFromUrl w urlParams =
     (let params = urlParams; objectFilters = []
      in if length params = 0 then Inr objectFilters
         else parse_params w objectFilters params)"

definition getFiltersFromUrl :: "world \<Rightarrow> error + string list js_object" where
  "getFiltersFromUrl w = parseFiltersFromUrl w (urlFilters w)"

subsection \<open>\<^verbatim>\<open>_updateFiltersFromUrl\<close>\<close>

text \<open>
  A step of the model returns the world it leaves behind and the exception it raised, if
  any: what was written before an exception stays written.

  The branches of the switch. Each looks the control up again, as the source does; a
  lookup that finds nothing makes the assignment that follows raise a TypeError.
  \<open>write_value\<close> is the branch of \<^verbatim>\<open>select-single\<close>, \<^verbatim>\<open>color\<close>, \<^verbatim>\<open>range\<close>,
  \<^verbatim>\<open>date\<close>, \<^verbatim>\<open>month\<close>, \<^verbatim>\<open>week\<close> and \<^verbatim>\<open>time\<close>: the array of tokens is assigned
  to \<^verbatim>\<open>value\<close>. \<open>write_select_multiple\<close> selects every option whose value
  \<^verbatim>\<open>indexOf\<close> finds among the tokens and leaves the others alone. \<open>write_radio\<close>
  checks the element that the selector with the array of tokens as a string finds,
  \<open>write_checkbox\<close> the element that the selector of each token finds, in turn.
\<close>

definition select_options :: "string list \<Rightarrow> element \<Rightarrow> element" where
  "select_options tokens e =
     e\<lparr>options := map (\<lambda>opt. if indexOf tokens (ovalue opt) \<ge> 0 then opt\<lparr>selected := True\<rparr> else opt)
                      (options e)\<rparr>"

definition write_value :: "string \<Rightarrow> string list \<Rightarrow> world \<Rightarrow> world \<times> error option" where
  "write_value type tokens w =
     (case form_query (sel_filter w type) w of
        Inl err \<Rightarrow> (w, Some err)
      | Inr None \<Rightarrow> (w, Some TypeError)
      | Inr (Some i) \<Rightarrow>
          (w\<lparr>document := (document w)[i := set_value w (array_to_string tokens) (document w ! i)]\<rparr>,
           None))"

definition write_select_multiple :: "string \<Rightarrow> string list \<Rightarrow> world \<Rightarrow> world \<times> error option" where
  "write_select_multiple type tokens w =
     (case form_query (sel_filter w type) w of
        Inl err \<Rightarrow> (w, Some err)
      | Inr None \<Rightarrow> (w, Some TypeError)
      | Inr (Some i) \<Rightarrow>
          (w\<lparr>document := (document w)[i := select_options tokens (document w ! i)]\<rparr>, None))"

definition write_radio :: "string \<Rightarrow> string list \<Rightarrow> world \<Rightarrow> world \<times> error option" where
  "write_radio type tokens w =
     (case form_query (sel_filter_value w type (array_to_string tokens)) w of
        Inl err \<Rightarrow> (w, Some err)
      | Inr None \<Rightarrow> (w, Some TypeError)
      | Inr (Some j) \<Rightarrow> (w\<lparr>document := set_checked j (document w)\<rparr>, None))"

fun write_checkbox :: "string \<Rightarrow> string list \<Rightarrow> world \<Rightarrow> world \<times> error option" where
  "write_checkbox type [] w = (w, None)"
| "write_checkbox type (v # vs) w =
     (case form_query (sel_filter_value w type v) w of
        Inl err \<Rightarrow> (w, Some err)
      | Inr None \<Rightarrow> (w, Some TypeError)
      | Inr (Some j) \<Rightarrow> write_checkbox type vs (w\<lparr>document := set_checked j (document w)\<rparr>))"

text \<open>
  The callback of \<^verbatim>\<open>Object.keys(objectFilters).forEach\<close> for one name and its tokens.
  Without a form the first lookup raises; a name with no control in the form is skipped;
  a control of any other type is reported on the console.
\<close>

definition write_filter :: "string \<times> string list \<Rightarrow> world \<Rightarrow> world \<times> error option" where
  "write_filter entry w =
     (let type = fst entry; tokens = snd entry
      in if \<not> form_found w then (w, Some TypeError)
         else (case form_query (sel_filter w type) w of
                 Inl err \<Rightarrow> (w, Some err)
               | Inr None \<Rightarrow> (w, None)
               | Inr (Some i) \<Rightarrow>
                   (case checkFilterType (document w ! i) of
                      SelectSingle \<Rightarrow> write_value type tokens w
                    | InputType Color \<Rightarrow> write_value type tokens w
                    | InputType Range \<Rightarrow> write_value type tokens w
                    | InputType Date \<Rightarrow> write_value type tokens w
                    | InputType Month \<Rightarrow> write_value type tokens w
                    | InputType Week \<Rightarrow> write_value type tokens w
                    | InputType Time \<Rightarrow> write_value type tokens w
                    | SelectMultiple \<Rightarrow> write_select_multiple type tokens w
                    | InputType Radio \<Rightarrow> write_radio type tokens w
                    | InputType Checkbox \<Rightarrow> write_checkbox type tokens w
                    | ft \<Rightarrow> (warn ft w, None))))"

fun write_filters :: "(string \<times> string list) list \<Rightarrow> world \<Rightarrow> world \<times> error option" where
  "write_filters [] w = (w, None)"
| "write_filters (entry # entries) w =
     (case write_filter entry w of
        (w', Some err) \<Rightarrow> (w', Some err)
      | (w', None) \<Rightarrow> write_filters entries w')"

definition updateFiltersFromUrl :: "search_params \<Rightarrow> world \<Rightarrow> world \<times> error option" where
  "updateFiltersFromUrl urlParams w =
     (case parseFiltersFromUrl w urlParams of
        Inl err \<Rightarrow> (w, Some err)
      | Inr objectFilters \<Rightarrow>
          if length (obj_keys objectFilters) = 0 then (w, None)
          else write_filters (obj_entries objectFilters) w)"

definition updateFilters :: "world \<Rightarrow> world \<times> error option" where
  "updateFilters w = updateFiltersFromUrl (urlFilters w) w"

subsection \<open>\<^verbatim>\<open>_updateUrlFromFilters\<close>\<close>

text \<open>
  The handler of a change event, for the element \<^verbatim>\<open>e.target\<close>. The filter name is
  the element's filter attribute; URLSearchParams turns a missing one into the string
  \<^verbatim>\<open>null\<close>. \<open>update_direct\<close> is the branch of \<^verbatim>\<open>select-single\<close>, \<^verbatim>\<open>radio\<close>,
  \<^verbatim>\<open>color\<close>, \<^verbatim>\<open>range\<close>, \<^verbatim>\<open>date\<close>, \<^verbatim>\<open>month\<close>, \<^verbatim>\<open>week\<close> and
  \<^verbatim>\<open>time\<close>, \<open>update_select_multiple\<close> and \<open>update_checkbox\<close> the two others.
\<close>

definition filter_name :: "world \<Rightarrow> element \<Rightarrow> string" where
  "filter_name w e = to_string (getAttribute (filterAttr w) e)"

definition update_direct :: "element \<Rightarrow> world \<Rightarrow> world" where
  "update_direct e w =
     (if get_value e \<noteq> []
      then w\<lparr>urlFilters := usp_set (filter_name w e) (get_value e) (urlFilters w)\<rparr>
      else w\<lparr>urlFilters := usp_delete (filter_name w e) (urlFilters w)\<rparr>)"

definition selected_values :: "element \<Rightarrow> string list" where
  "selected_values e = map ovalue (filter selected (options e))"

definition update_select_multiple :: "element \<Rightarrow> world \<Rightarrow> world" where
  "update_select_multiple e w =
     (let filterValues = selected_values e
      in w\<lparr>urlFilters := usp_set (filter_name w e) (join_with '' '' filterValues) (urlFilters w)\<rparr>)"

definition update_checkbox :: "element \<Rightarrow> world \<Rightarrow> world" where
  "update_checkbox e w =
     (let filterName = filter_name w e;
          filterParams = split_on CHR '' '' (to_string (usp_get filterName (urlFilters w)))
      in if usp_has filterName (urlFilters w) then
           (if checked e then
              w\<lparr>urlFilters :=
                  usp_set filterName
                    (to_string (usp_get filterName (urlFilters w)) @ '' '' @ get_value e)
                    (urlFilters w)\<rparr>
            else if length filterParams > 1 then
              w\<lparr>urlFilters :=
                  usp_set filterName
                    (join_with '' '' (splice1 (indexOf filterParams (get_value e)) filterParams))
                    (usp_delete filterName (urlFilters w))\<rparr>
            else w\<lparr>urlFilters := usp_delete filterName (urlFilters w)\<rparr>)
         else w\<lparr>urlFilters := usp_append filterName (get_value e) (urlFilters w)\<rparr>)"

definition updateUrlFromFilters :: "element \<Rightarrow> world \<Rightarrow> world" where
  "updateUrlFromFilters e w =
     (case checkFilterType e of
        SelectSingle \<Rightarrow> update_direct e w
      | InputType Radio \<Rightarrow> update_direct e w
      | InputType Color \<Rightarrow> update_direct e w
      | InputType Range \<Rightarrow> update_direct e w
      | InputType Date \<Rightarrow> update_direct e w
      | InputType Month \<Rightarrow> update_direct e w
      | InputType Week \<Rightarrow> update_direct e w
      | InputType Time \<Rightarrow> update_direct e w
      | SelectMultiple \<Rightarrow> update_select_multiple e w
      | InputType Checkbox \<Rightarrow> update_checkbox e w
      | ft \<Rightarrow> warn ft w)"

text \<open>
  The token sequences the address holds for a name, one for each parameter of that name:
  the empty list when the name is absent, \<open>[ts]\<close> when it is stored once with tokens
  \<open>ts\<close>.
\<close>

definition stored_tokens :: "string \<Rightarrow> search_params \<Rightarrow> string list list" where
  "stored_tokens n ps = map (\<lambda>p. split_on CHR '' '' (snd p)) (filter (\<lambda>p. fst p = n) ps)"

section \<open>Masks: what a refresh assigns\<close>

text \<open>
  A \<open>mask\<close> is a set of property assignments for one element, each a constant or absent:
  a value, a checkedness, and a selectedness for some of the options.
\<close>

record mask =
  m_value :: "string option"
  m_checked :: "bool option"
  m_selected :: "nat \<Rightarrow> bool option"

definition no_mask :: mask where
  "no_mask = \<lparr>m_value = None, m_checked = None, m_selected = (\<lambda>j. None)\<rparr>"

definition apply_mask :: "mask \<Rightarrow> element \<Rightarrow> element" where
  "apply_mask m e =
     e\<lparr>dom_value := (case m_value m of None \<Rightarrow> dom_value e | Some v \<Rightarrow> v),
       checked := (case m_checked m of None \<Rightarrow> checked e | Some b \<Rightarrow> b),
       options := map (\<lambda>j. case m_selected m j of
                              None \<Rightarrow> options e ! j
                            | Some b \<Rightarrow> (options e ! j)\<lparr>selected := b\<rparr>)
                    [0..<length (options e)]\<rparr>"

definition apply_masks :: "(nat \<Rightarrow> mask) \<Rightarrow> element list \<Rightarrow> element list" where
  "apply_masks M es = map (\<lambda>i. apply_mask (M i) (es ! i)) [0..<length es]"

definition then_mask :: "mask \<Rightarrow> mask \<Rightarrow> mask" where
  "then_mask m1 m2 =
     \<lparr>m_value = (case m_value m2 of None \<Rightarrow> m_value m1 | Some v \<Rightarrow> Some v),
      m_checked = (case m_checked m2 of None \<Rightarrow> m_checked m1 | Some b \<Rightarrow> Some b),
      m_selected = (\<lambda>j. case m_selected m2 j of None \<Rightarrow> m_selected m1 j | Some b \<Rightarrow> Some b)\<rparr>"



text \<open>The masks of the three assignments the class makes.\<close>

definition check_mask :: "bool \<Rightarrow> mask" where
  "check_mask b = no_mask\<lparr>m_checked := Some b\<rparr>"







section \<open>A host for the examples\<close>

text \<open>
  The evaluations below need a browser that answers. \<open>css_fragment\<close> reads the part of
  the selector grammar that they exercise and answers on it as the Selectors standard
  says: a list, separated by commas, of compound selectors; a compound is an attribute
  selector \<^verbatim>\<open>[name="value"]\<close> followed by any number of attribute selectors and of the
  pseudo-classes \<^verbatim>\<open>:checked\<close> and \<^verbatim>\<open>:not(:checked)\<close>. A name is made of lower-case
  letters, digits, hyphens and underscores and starts with a letter; a value is any text
  without a double quote, a backslash, a line break or a NUL, and ends at the next double
  quote. An element matches a list when it matches one of its compounds, a compound when
  it matches every part; an attribute selector asks for the attribute with exactly that
  value; a checkbox or radio button is \<^verbatim>\<open>:checked\<close> when its checkedness is set. A text
  outside this part is refused, although a browser reads more. The theorems that hold
  for every page hold for every \<open>css\<close>; only the evaluations use this one, on texts it
  reads.
\<close>

datatype simple_selector = Attr string string | Checked | NotChecked

definition is_name_start :: "char \<Rightarrow> bool" where
  "is_name_start c = (c \<in> set ''abcdefghijklmnopqrstuvwxyz'')"

definition is_name_char :: "char \<Rightarrow> bool" where
  "is_name_char c = (c \<in> set ''abcdefghijklmnopqrstuvwxyz0123456789-_'')"

definition is_plain_char :: "char \<Rightarrow> bool" where
  "is_plain_char c = (c \<notin> set [CHR 0x22, CHR 0x5C, CHR 0x0A, CHR 0x0D, CHR 0x0C, CHR 0x00])"

fun strip_prefix :: "string \<Rightarrow> string \<Rightarrow> string option" where
  "strip_prefix [] s = Some s"
| "strip_prefix (p # ps) [] = None"
| "strip_prefix (p # ps) (c # cs) = (if p = c then strip_prefix ps cs else None)"

text \<open>The text of a quoted value up to its closing quote, and what follows the quote.\<close>

fun parse_value :: "string \<Rightarrow> (string \<times> string) option" where
  "parse_value [] = None"
| "parse_value (c # cs) =
     (if c = CHR 0x22 then Some ([], cs)
      else if is_plain_char c
        then (case parse_value cs of None \<Rightarrow> None | Some (v, rest) \<Rightarrow> Some (c # v, rest))
      else None)"

definition parse_attr :: "string \<Rightarrow> (simple_selector \<times> string) option" where
  "parse_attr s =
     (case strip_prefix ''['' s of
        None \<Rightarrow> None
      | Some s1 \<Rightarrow>
          (let name = takeWhile is_name_char s1; s2 = dropWhile is_name_char s1
           in if name = [] \<or> \<not> is_name_start (hd name) then None
              else (case strip_prefix (''='' @ [CHR 0x22]) s2 of
                      None \<Rightarrow> None
                    | Some s3 \<Rightarrow>
                        (case parse_value s3 of
                           None \<Rightarrow> None
                         | Some (v, s4) \<Rightarrow>
                             (case strip_prefix '']'' s4 of
                                None \<Rightarrow> None
                              | Some s5 \<Rightarrow> Some (Attr name v, s5))))))"

definition parse_simple :: "string \<Rightarrow> (simple_selector \<times> string) option" where
  "parse_simple s =
     (case parse_attr s of
        Some r \<Rightarrow> Some r
      | None \<Rightarrow>
          (case strip_prefix '':not(:checked)'' s of
             Some rest \<Rightarrow> Some (NotChecked, rest)
           | None \<Rightarrow>
               (case strip_prefix '':checked'' s of
                  Some rest \<Rightarrow> Some (Checked, rest)
                | None \<Rightarrow> None)))"

text \<open>
  The parts of a compound after its first, as many as can be read. Every part read
  shortens the text; the test says so to the termination proof.
\<close>

function parse_simples :: "string \<Rightarrow> simple_selector list \<times> string" where
  "parse_simples s =
     (case parse_simple s of
        None \<Rightarrow> ([], s)
      | Some (x, rest) \<Rightarrow>
          if length rest < length s
          then (case parse_simples rest of (xs, rest') \<Rightarrow> (x # xs, rest'))
          else ([], s))"
  by pat_completeness auto
termination
  by (relation "measure length") auto

declare parse_simples.simps [simp del]

definition parse_compound :: "string \<Rightarrow> (simple_selector list \<times> string) option" where
  "parse_compound s =
     (case parse_attr s of
        None \<Rightarrow> None
      | Some (a, rest) \<Rightarrow> (case parse_simples rest of (xs, rest') \<Rightarrow> Some (a # xs, rest')))"

function parse_selector :: "string \<Rightarrow> simple_selector list list option" where
  "parse_selector s =
     (case parse_compound s of
        None \<Rightarrow> None
      | Some (c, rest) \<Rightarrow>
          if rest = [] then Some [c]
          else (case strip_prefix '','' rest of
                  None \<Rightarrow> None
                | Some rest' \<Rightarrow>
                    if length rest' < length s
                    then (case parse_selector rest' of None \<Rightarrow> None | Some cs \<Rightarrow> Some (c # cs))
                    else None))"
  by pat_completeness auto
termination
  by (relation "measure length") auto

declare parse_selector.simps [simp del]

definition is_checked :: "element \<Rightarrow> bool" where
  "is_checked e = (tagName e = InputTag \<and> (itype e = Checkbox \<or> itype e = Radio) \<and> checked e)"

fun matches_simple :: "element \<Rightarrow> simple_selector \<Rightarrow> bool" where
  "matches_simple e (Attr name v) = (getAttribute name e = Some v)"
| "matches_simple e Checked = is_checked e"
| "matches_simple e NotChecked = (\<not> is_checked e)"

definition matches :: "simple_selector list list \<Rightarrow> element \<Rightarrow> bool" where
  "matches sel e = list_ex (\<lambda>compound. list_all (matches_simple e) compound) sel"

definition css_fragment :: "string \<Rightarrow> (element list \<Rightarrow> nat \<Rightarrow> bool) option" where
  "css_fragment text =
     (case parse_selector text of
        None \<Rightarrow> None
      | Some sel \<Rightarrow> Some (\<lambda>d i. matches sel (d ! i)))"

text \<open>
  Example controls, with \<^verbatim>\<open>data-filter\<close> as the filter attribute. The example pages
  hold no input whose value the class assigns, so their sanitization is never asked; it
  keeps the string.
\<close>

definition blank :: element where
  "blank = \<lparr>tagName = OtherTag, itype = Text, multiple = False, in_form = True,
            attributes = [], dom_value = [], checked = False, options = []\<rparr>"

definition checkbox :: "string \<Rightarrow> string \<Rightarrow> bool \<Rightarrow> element" where
  "checkbox n v c =
     blank\<lparr>tagName := InputTag, itype := Checkbox,
           attributes := [(''type'', ''checkbox''), (''data-filter'', n), (''name'', n), (''value'', v)],
           checked := c\<rparr>"

definition radio :: "string \<Rightarrow> string \<Rightarrow> bool \<Rightarrow> element" where
  "radio n v c =
     blank\<lparr>tagName := InputTag, itype := Radio,
           attributes := [(''type'', ''radio''), (''data-filter'', n), (''name'', n), (''value'', v)],
           checked := c\<rparr>"

definition select :: "string \<Rightarrow> bool \<Rightarrow> (string \<times> bool) list \<Rightarrow> element" where
  "select n m opts =
     blank\<lparr>tagName := SelectTag, multiple := m,
           attributes := [(''data-filter'', n), (''name'', n)],
           options := map (\<lambda>p. \<lparr>ovalue = fst p, selected = snd p\<rparr>) opts\<rparr>"

definition page :: "element list \<Rightarrow> search_params \<Rightarrow> world" where
  "page es ps =
     \<lparr>document = es, form_found = True, filterAttr = ''data-filter'', urlFilters = ps,
      console = [], css = css_fragment, sanitize = (\<lambda>e v. v)\<rparr>"

section \<open>Strings, arrays and search parameters\<close>

lemma split_on_not_Nil: "split_on c s \<noteq> []"
  by (induction s) (auto split: list.splits)

lemma split_on_no_sep: "c \<notin> set s \<Longrightarrow> split_on c s = [s]"
  by (induction s) auto

lemma split_on_prefix: "c \<notin> set t \<Longrightarrow> split_on c (t @ c # s) = t # split_on c s"
  by (induction t) auto

lemma split_on_tokens_free: "t \<in> set (split_on c s) \<Longrightarrow> c \<notin> set t"
  by (induction s arbitrary: t) (auto split: if_splits list.splits)

lemma split_on_single_iff: "(split_on c s = [s]) = (c \<notin> set s)"
proof
  assume "split_on c s = [s]"
  then have "s \<in> set (split_on c s)" by simp
  then show "c \<notin> set s" by (rule split_on_tokens_free)
next
  assume "c \<notin> set s"
  then show "split_on c s = [s]" by (rule split_on_no_sep)
qed

text \<open>Joining tokens that are free of the separator and splitting again is lossless.\<close>

lemma split_on_join_with:
  "ts \<noteq> [] \<Longrightarrow> (\<And>t. t \<in> set ts \<Longrightarrow> c \<notin> set t) \<Longrightarrow> split_on c (join_with [c] ts) = ts"
proof (induction "[c]" ts rule: join_with.induct)
  case 1
  then show ?case by simp
next
  case (2 x)
  then show ?case by (simp add: split_on_no_sep)
next
  case (3 x y ys)
  have "split_on c (x @ c # join_with [c] (y # ys)) = x # split_on c (join_with [c] (y # ys))"
    using 3(3) by (intro split_on_prefix) simp
  then show ?case using 3 by simp
qed

lemma indexOf_absent: "y \<notin> set xs \<Longrightarrow> indexOf xs y = - 1"
  by (induction xs) (auto simp: Let_def)

lemma indexOf_present:
  "y \<in> set xs \<Longrightarrow> 0 \<le> indexOf xs y \<and> indexOf xs y < int (length xs)
     \<and> take (nat (indexOf xs y)) xs @ drop (Suc (nat (indexOf xs y))) xs = remove1 y xs"
proof (induction xs)
  case Nil
  then show ?case by simp
next
  case (Cons x xs)
  show ?case
  proof (cases "x = y")
    case True
    then show ?thesis by simp
  next
    case False
    with Cons.prems have "y \<in> set xs" by simp
    from Cons.IH[OF this] False show ?thesis
      by (simp add: Let_def nat_add_distrib)
  qed
qed

lemma indexOf_nonneg_iff: "(0 \<le> indexOf xs y) = (y \<in> set xs)"
proof (cases "y \<in> set xs")
  case True
  then show ?thesis using indexOf_present[of y xs] by simp
next
  case False
  then show ?thesis by (simp add: indexOf_absent)
qed

lemma splice1_absent: "xs \<noteq> [] \<Longrightarrow> splice1 (- 1) xs = butlast xs"
  by (cases xs rule: rev_cases) (auto simp: splice1_def Let_def)

lemma splice1_present: "y \<in> set xs \<Longrightarrow> splice1 (indexOf xs y) xs = remove1 y xs"
proof -
  assume a: "y \<in> set xs"
  from indexOf_present[OF a] show ?thesis
    by (auto simp: splice1_def Let_def nat_add_distrib)
qed

lemma params_usp_delete: "filter (\<lambda>p. fst p = n) (usp_delete n ps) = []"
  by (induction ps) (auto simp: usp_delete_def)

lemma params_usp_delete_other:
  "m \<noteq> n \<Longrightarrow> filter (\<lambda>p. fst p = m) (usp_delete n ps) = filter (\<lambda>p. fst p = m) ps"
  by (induction ps) (auto simp: usp_delete_def)

lemma params_usp_set: "filter (\<lambda>p. fst p = n) (usp_set n v ps) = [(n, v)]"
  by (induction ps) (auto simp: params_usp_delete)

lemma params_usp_set_other:
  "m \<noteq> n \<Longrightarrow> filter (\<lambda>p. fst p = m) (usp_set n v ps) = filter (\<lambda>p. fst p = m) ps"
  by (induction ps) (auto simp: params_usp_delete_other)

lemma stored_tokens_usp_set: "stored_tokens n (usp_set n v ps) = [split_on CHR '' '' v]"
  by (simp add: stored_tokens_def params_usp_set)

lemma stored_tokens_usp_delete: "stored_tokens n (usp_delete n ps) = []"
  by (simp add: stored_tokens_def params_usp_delete)

lemma usp_has_get: "usp_has n ps = (usp_get n ps \<noteq> None)"
  by (induction ps) (auto simp: usp_has_def usp_get_def)

section \<open>Change events: from a control to the address\<close>

subsection \<open>Checkboxes\<close>

lemma update_checkbox_absent:
  assumes "\<not> checked e"
    and "usp_get (filter_name w e) (urlFilters w) = Some s"
    and "length (split_on CHR '' '' s) > 1"
    and "get_value e \<notin> set (split_on CHR '' '' s)"
  shows "stored_tokens (filter_name w e) (urlFilters (update_checkbox e w))
           = [butlast (split_on CHR '' '' s)]"
proof -
  let ?ts = "split_on CHR '' '' s"
  have ne: "butlast ?ts \<noteq> []" using assms(3) by (cases ?ts rule: rev_cases) auto
  have free: "\<And>t. t \<in> set (butlast ?ts) \<Longrightarrow> CHR '' '' \<notin> set t"
    by (meson in_set_butlastD split_on_tokens_free)
  have sp: "splice1 (indexOf ?ts (get_value e)) ?ts = butlast ?ts"
    using assms(3,4) by (simp add: indexOf_absent splice1_absent split_on_not_Nil)
  have has: "usp_has (filter_name w e) (urlFilters w)"
    using assms(2) by (simp add: usp_has_get)
  have "urlFilters (update_checkbox e w)
          = usp_set (filter_name w e) (join_with '' '' (butlast ?ts))
              (usp_delete (filter_name w e) (urlFilters w))"
    using assms(1,2,3) has sp by (simp add: update_checkbox_def Let_def to_string_def)
  then show ?thesis
    using split_on_join_with[OF ne free] by (simp add: stored_tokens_usp_set)
qed

text \<open>
  Unchecking a value that is among the stored tokens removes its first occurrence and
  keeps the others in order; unchecking when one token is stored removes the name.
\<close>

lemma update_checkbox_present:
  assumes "\<not> checked e"
    and "usp_get (filter_name w e) (urlFilters w) = Some s"
    and "length (split_on CHR '' '' s) > 1"
    and "get_value e \<in> set (split_on CHR '' '' s)"
  shows "stored_tokens (filter_name w e) (urlFilters (update_checkbox e w))
           = [remove1 (get_value e) (split_on CHR '' '' s)]"
proof -
  let ?ts = "split_on CHR '' '' s"
  have ne: "remove1 (get_value e) ?ts \<noteq> []"
  proof
    assume "remove1 (get_value e) ?ts = []"
    then have "length (remove1 (get_value e) ?ts) = 0" by simp
    with assms(3,4) show False by (simp add: length_remove1)
  qed
  have free: "\<And>t. t \<in> set (remove1 (get_value e) ?ts) \<Longrightarrow> CHR '' '' \<notin> set t"
    by (meson notin_set_remove1 split_on_tokens_free)
  have sp: "splice1 (indexOf ?ts (get_value e)) ?ts = remove1 (get_value e) ?ts"
    using assms(4) by (rule splice1_present)
  have has: "usp_has (filter_name w e) (urlFilters w)"
    using assms(2) by (simp add: usp_has_get)
  have "urlFilters (update_checkbox e w)
          = usp_set (filter_name w e) (join_with '' '' (remove1 (get_value e) ?ts))
              (usp_delete (filter_name w e) (urlFilters w))"
    using assms(1,2,3) has sp by (simp add: update_checkbox_def Let_def to_string_def)
  then show ?thesis
    using split_on_join_with[OF ne free] by (simp add: stored_tokens_usp_set)
qed

lemma update_checkbox_last:
  assumes "\<not> checked e"
    and "usp_get (filter_name w e) (urlFilters w) = Some s"
    and "length (split_on CHR '' '' s) = 1"
  shows "stored_tokens (filter_name w e) (urlFilters (update_checkbox e w)) = []"
proof -
  have has: "usp_has (filter_name w e) (urlFilters w)"
    using assms(2) by (simp add: usp_has_get)
  show ?thesis using assms has
    by (simp add: update_checkbox_def Let_def to_string_def stored_tokens_usp_delete)
qed

text \<open>
  Claim C10. An uncheck event of a checkbox whose name is stored with more than one
  token, none of them the checkbox's value: \<^verbatim>\<open>indexOf\<close> answers \<open>-1\<close>,
  \<^verbatim>\<open>splice(-1, 1)\<close> removes the last token, and the name is stored again with the
  remaining tokens. The entry loses a value that was never unchecked.
\<close>

theorem checkbox_uncheck_absent_value_removes_last_token:
  assumes "checkFilterType e = InputType Checkbox"
    and "\<not> checked e"
    and "usp_get (filter_name w e) (urlFilters w) = Some s"
    and "length (split_on CHR '' '' s) > 1"
    and "get_value e \<notin> set (split_on CHR '' '' s)"
  shows "stored_tokens (filter_name w e) (urlFilters (updateUrlFromFilters e w))
           = [butlast (split_on CHR '' '' s)]"
  using update_checkbox_absent[OF assms(2-5)] assms(1)
  by (simp add: updateUrlFromFilters_def)

theorem checkbox_uncheck_absent_value_witness:
  "checkFilterType (checkbox ''size'' ''xl'' False) = InputType Checkbox
   \<and> \<not> checked (checkbox ''size'' ''xl'' False)
   \<and> usp_get ''size'' [(''size'', ''s m l'')] = Some ''s m l''
   \<and> split_on CHR '' '' ''s m l'' = [''s'', ''m'', ''l'']
   \<and> get_value (checkbox ''size'' ''xl'' False) = ''xl''
   \<and> stored_tokens ''size''
        (urlFilters (updateUrlFromFilters (checkbox ''size'' ''xl'' False)
           (page [checkbox ''size'' ''xl'' False] [(''size'', ''s m l'')])))
      = [[''s'', ''m'']]"
  using checkbox_uncheck_absent_value_removes_last_token
          [of "checkbox ''size'' ''xl'' False"
              "page [checkbox ''size'' ''xl'' False] [(''size'', ''s m l'')]" "''s m l''"]
  by (simp add: blank_def checkbox_def page_def checkFilterType_def filter_name_def getAttribute_def to_string_def usp_get_def
        get_value_def)

text \<open>
  Claim C4. With \<^verbatim>\<open>color=red blue\<close> in the address, an uncheck event of the checkbox
  \<open>green\<close> of that name leaves \<open>red\<close> alone: the token \<open>blue\<close> is removed, not the
  unchecked value.
\<close>

theorem checkbox_uncheck_green_removes_blue:
  "stored_tokens ''color''
     (urlFilters (updateUrlFromFilters (checkbox ''color'' ''green'' False)
        (page [checkbox ''color'' ''green'' False] [(''color'', ''red blue'')])))
   = [[''red'']]"
  by (simp add: blank_def checkbox_def page_def updateUrlFromFilters_def update_checkbox_def checkFilterType_def
        filter_name_def getAttribute_def to_string_def usp_get_def usp_has_def usp_delete_def get_value_def
        splice1_def stored_tokens_def Let_def)

subsection \<open>Controls with one value\<close>

lemma update_direct_params:
  "filter (\<lambda>p. fst p = filter_name w e) (urlFilters (update_direct e w))
     = (if get_value e = [] then [] else [(filter_name w e, get_value e)])"
  by (simp add: update_direct_def params_usp_set params_usp_delete)

lemma updateUrlFromFilters_direct:
  assumes "checkFilterType e \<in> {SelectSingle, InputType Radio, InputType Color, InputType Range,
             InputType Date, InputType Month, InputType Week, InputType Time}"
  shows "updateUrlFromFilters e w = update_direct e w"
  using assms by (auto simp: updateUrlFromFilters_def)

text \<open>
  Claim C7, as the code has it. A change event of a single select, a radio button or an
  input of type color, range, date, month, week or time: with the empty string as the
  control's value the name leaves the address; otherwise the address holds the name
  once, with the value as it is, and the tokens of the name are the value split at
  spaces. They are the one current value exactly when the value has no space.
\<close>

theorem direct_value_change_sets_or_removes:
  assumes "checkFilterType e \<in> {SelectSingle, InputType Radio, InputType Color, InputType Range,
             InputType Date, InputType Month, InputType Week, InputType Time}"
  shows "(get_value e = [] \<longrightarrow>
            \<not> usp_has (filter_name w e) (urlFilters (updateUrlFromFilters e w))
            \<and> stored_tokens (filter_name w e) (urlFilters (updateUrlFromFilters e w)) = [])
       \<and> (get_value e \<noteq> [] \<longrightarrow>
            filter (\<lambda>p. fst p = filter_name w e) (urlFilters (updateUrlFromFilters e w))
              = [(filter_name w e, get_value e)]
            \<and> stored_tokens (filter_name w e) (urlFilters (updateUrlFromFilters e w))
              = [split_on CHR '' '' (get_value e)])
       \<and> ((split_on CHR '' '' (get_value e) = [get_value e])
            = (CHR '' '' \<notin> set (get_value e)))"
proof -
  have u: "updateUrlFromFilters e w = update_direct e w"
    using assms by (rule updateUrlFromFilters_direct)
  have p: "filter (\<lambda>p. fst p = filter_name w e) (urlFilters (update_direct e w))
     = (if get_value e = [] then [] else [(filter_name w e, get_value e)])"
    by (rule update_direct_params)
  have h: "get_value e = [] \<Longrightarrow> \<not> usp_has (filter_name w e) (urlFilters (update_direct e w))"
    by (auto simp: update_direct_def usp_has_def usp_delete_def)
  show ?thesis unfolding u using p h
    by (simp add: stored_tokens_def split_on_single_iff)
qed

theorem direct_value_change_witness:
  "checkFilterType (select ''sort'' False [(''price'', True)]) = SelectSingle
   \<and> get_value (select ''sort'' False [(''price'', True)]) = ''price''
   \<and> filter (\<lambda>p. fst p = ''sort'')
        (urlFilters (updateUrlFromFilters (select ''sort'' False [(''price'', True)])
           (page [select ''sort'' False [(''price'', True)]] [(''sort'', ''name''), (''sort'', ''x'')])))
      = [(''sort'', ''price'')]
   \<and> stored_tokens ''sort''
        (urlFilters (updateUrlFromFilters (select ''sort'' False [(''price'', True)])
           (page [select ''sort'' False [(''price'', True)]] [(''sort'', ''name''), (''sort'', ''x'')])))
      = [[''price'']]
   \<and> get_value (select ''sort'' False [('''', True), (''price'', False)]) = ''''
   \<and> \<not> usp_has ''sort''
        (urlFilters (updateUrlFromFilters (select ''sort'' False [('''', True), (''price'', False)])
           (page [select ''sort'' False [('''', True), (''price'', False)]] [(''sort'', ''name'')])))"
  using direct_value_change_sets_or_removes
          [of "select ''sort'' False [(''price'', True)]"
              "page [select ''sort'' False [(''price'', True)]] [(''sort'', ''name''), (''sort'', ''x'')]"]
        direct_value_change_sets_or_removes
          [of "select ''sort'' False [('''', True), (''price'', False)]"
              "page [select ''sort'' False [('''', True), (''price'', False)]] [(''sort'', ''name'')]"]
  by (simp add: blank_def select_def page_def checkFilterType_def filter_name_def getAttribute_def
        to_string_def get_value_def)

text \<open>
  Claim C7, as the spec states it, fails. A single select \<open>city\<close> whose selected option
  has the value \<open>New York\<close>: the change event stores the value as it is, and the name
  reads back with the two tokens \<open>New\<close> and \<open>York\<close>, not with the one current value.
\<close>

theorem direct_value_with_space_is_two_tokens:
  "checkFilterType (select ''city'' False [(''Oslo'', False), (''New York'', True)]) = SelectSingle
   \<and> get_value (select ''city'' False [(''Oslo'', False), (''New York'', True)]) = ''New York''
   \<and> stored_tokens ''city''
        (urlFilters (updateUrlFromFilters (select ''city'' False [(''Oslo'', False), (''New York'', True)])
           (page [select ''city'' False [(''Oslo'', False), (''New York'', True)]] [])))
      = [[''New'', ''York'']]"
  by (simp add: blank_def select_def page_def checkFilterType_def filter_name_def getAttribute_def
        to_string_def get_value_def updateUrlFromFilters_def update_direct_def stored_tokens_def)

subsection \<open>Multiple selects\<close>

text \<open>
  The address always receives the selected values, in option order, joined by spaces, in
  place of whatever the name held. With at least one selected option, and values free
  of the delimiter, these are the tokens read back.
\<close>

lemma update_select_multiple_params:
  "filter (\<lambda>p. fst p = filter_name w e) (urlFilters (update_select_multiple e w))
     = [(filter_name w e, join_with '' '' (selected_values e))]"
  by (simp add: update_select_multiple_def Let_def params_usp_set)

lemma update_select_multiple_tokens:
  assumes "selected_values e \<noteq> []"
    and "\<And>v. v \<in> set (selected_values e) \<Longrightarrow> CHR '' '' \<notin> set v"
  shows "stored_tokens (filter_name w e) (urlFilters (update_select_multiple e w))
           = [selected_values e]"
  using split_on_join_with[of "selected_values e" "CHR '' ''"] assms
  by (simp add: update_select_multiple_def Let_def stored_tokens_usp_set)

lemma update_select_multiple_none:
  assumes "checkFilterType e = SelectMultiple" and "selected_values e = []"
  shows "filter (\<lambda>p. fst p = filter_name w e) (urlFilters (updateUrlFromFilters e w))
           = [(filter_name w e, [])]"
  using assms update_select_multiple_params[where e = e and w = w]
  by (simp add: updateUrlFromFilters_def)

text \<open>
  Claim C6. A change event of a multiple select with no option selected (the user
  deselected the last one), the name holding \<open>a c\<close> before: the selected values are the
  empty list, and the address keeps the name with one token, the empty string.
\<close>

theorem multi_select_none_selected_stores_empty_token:
  "selected_values (select ''tags'' True [(''a'', False), (''b'', False), (''c'', False)]) = []
   \<and> stored_tokens ''tags''
        (urlFilters (updateUrlFromFilters
           (select ''tags'' True [(''a'', False), (''b'', False), (''c'', False)])
           (page [select ''tags'' True [(''a'', False), (''b'', False), (''c'', False)]]
              [(''tags'', ''a c'')])))
      = [['''']]"
  by (simp add: blank_def select_def page_def updateUrlFromFilters_def update_select_multiple_def
        checkFilterType_def filter_name_def getAttribute_def to_string_def selected_values_def stored_tokens_def
        usp_delete_def Let_def)

section \<open>The example host on plain names and values\<close>

text \<open>
  A name or value without a double quote, a backslash, a line break or a NUL is read back
  by \<open>css_fragment\<close> as it was pasted: the two selector texts of the class then ask
  for the attributes they name.
\<close>

lemma parse_value_plain:
  "list_all is_plain_char v \<Longrightarrow> parse_value (v @ CHR 0x22 # rest) = Some (v, rest)"
  by (induction v) (auto simp: is_plain_char_def)

lemma parse_attr_data_filter:
  assumes "list_all is_plain_char n"
  shows "parse_attr (''[data-filter='' @ CHR 0x22 # n @ CHR 0x22 # CHR '']'' # rest)
           = Some (Attr ''data-filter'' n, rest)"
  using parse_value_plain[OF assms, of "CHR '']'' # rest"]
  by (simp add: parse_attr_def is_name_char_def is_name_start_def)

lemma parse_attr_value:
  assumes "list_all is_plain_char v"
  shows "parse_attr (''[value='' @ CHR 0x22 # v @ CHR 0x22 # CHR '']'' # rest)
           = Some (Attr ''value'' v, rest)"
  using parse_value_plain[OF assms, of "CHR '']'' # rest"]
  by (simp add: parse_attr_def is_name_char_def is_name_start_def)

lemma parse_simples_Nil: "parse_simples [] = ([], [])"
  by (simp add: parse_simples.simps parse_simple_def parse_attr_def)

lemma parse_selector_filter:
  assumes "list_all is_plain_char n"
  shows "parse_selector (sel_filter (page es ps) n) = Some [[Attr ''data-filter'' n]]"
proof -
  have "sel_filter (page es ps) n = ''[data-filter='' @ CHR 0x22 # n @ CHR 0x22 # CHR '']'' # []"
    by (simp add: sel_filter_def page_def)
  then show ?thesis
    using parse_attr_data_filter[OF assms, of "[]"]
    by (simp add: parse_selector.simps parse_compound_def parse_simples_Nil)
qed

lemma parse_selector_filter_value:
  assumes "list_all is_plain_char n" and "list_all is_plain_char v"
  shows "parse_selector (sel_filter_value (page es ps) n v)
           = Some [[Attr ''data-filter'' n, Attr ''value'' v]]"
proof -
  let ?rest = "''[value='' @ CHR 0x22 # v @ CHR 0x22 # CHR '']'' # []"
  have t: "sel_filter_value (page es ps) n v
             = ''[data-filter='' @ CHR 0x22 # n @ CHR 0x22 # CHR '']'' # ?rest"
    by (simp add: sel_filter_value_def sel_filter_def page_def)
  have s: "parse_simples ?rest = ([Attr ''value'' v], [])"
    using parse_attr_value[OF assms(2), of "[]"]
    by (subst parse_simples.simps) (simp add: parse_simple_def parse_simples_Nil)
  show ?thesis
    unfolding t using parse_attr_data_filter[OF assms(1), of ?rest] s
    by (subst parse_selector.simps) (simp add: parse_compound_def)
qed

lemma css_page [simp]: "css (page es ps) = css_fragment"
  by (simp add: page_def)

lemma document_page [simp]: "document (page es ps) = es"
  by (simp add: page_def)

lemma urlFilters_page [simp]: "urlFilters (page es ps) = ps"
  by (simp add: page_def)

lemma form_found_page [simp]: "form_found (page es ps)"
  by (simp add: page_def)

lemma page_document_update [simp]: "(page es ps)\<lparr>document := es'\<rparr> = page es' ps"
  by (simp add: page_def)

lemma document_query_page:
  assumes "list_all is_plain_char n"
  shows "document_query (sel_filter (page es ps) n) (page es ps)
           = Inr (find (\<lambda>i. getAttribute ''data-filter'' (es ! i) = Some n) [0..<length es])"
  using parse_selector_filter[OF assms, of es ps]
  by (simp add: document_query_def querySelector_def css_fragment_def matches_def)

lemma form_query_page:
  assumes "list_all is_plain_char n"
  shows "form_query (sel_filter (page es ps) n) (page es ps)
           = Inr (find (\<lambda>i. in_form (es ! i) \<and> getAttribute ''data-filter'' (es ! i) = Some n)
                    [0..<length es])"
  using parse_selector_filter[OF assms, of es ps]
  by (simp add: form_query_def querySelector_def css_fragment_def matches_def)

lemma form_query_value_page:
  assumes "list_all is_plain_char n" and "list_all is_plain_char v"
  shows "form_query (sel_filter_value (page es ps) n v) (page es ps)
           = Inr (find (\<lambda>i. in_form (es ! i) \<and> getAttribute ''data-filter'' (es ! i) = Some n
                           \<and> getAttribute ''value'' (es ! i) = Some v)
                    [0..<length es])"
  using parse_selector_filter_value[OF assms, of es ps]
  by (simp add: form_query_def querySelector_def css_fragment_def matches_def)

section \<open>Parsing the address\<close>

lemma obj_set_values: "q \<in> set (obj_set k v obj) \<Longrightarrow> q \<in> set obj \<or> q = (k, v)"
  by (induction obj) (auto split: if_splits)


lemma parse_params_tokens:
  "parse_params w acc ps = Inr obj \<Longrightarrow> \<forall>q\<in>set acc. snd q \<noteq> [] \<Longrightarrow> \<forall>q\<in>set obj. snd q \<noteq> []"
proof (induction ps arbitrary: acc)
  case Nil
  then show ?case by simp
next
  case (Cons a ps)
  show ?case
  proof (cases "document_query (sel_filter w (fst a)) w")
    case (Inl err)
    with Cons.prems(1) show ?thesis by (simp add: Let_def)
  next
    case (Inr found)
    show ?thesis
    proof (cases found)
      case None
      with Inr Cons.prems(1) have "parse_params w acc ps = Inr obj" by (simp add: Let_def)
      from Cons.IH[OF this Cons.prems(2)] show ?thesis .
    next
      case (Some i)
      with Inr Cons.prems(1)
      have p: "parse_params w (obj_set (fst a) (split_on CHR '' '' (snd a)) acc) ps = Inr obj"
        by (simp add: Let_def)
      have "\<forall>q\<in>set (obj_set (fst a) (split_on CHR '' '' (snd a)) acc). snd q \<noteq> []"
        using Cons.prems(2) obj_set_values[of _ "fst a" "split_on CHR '' '' (snd a)" acc]
        by (metis split_on_not_Nil snd_conv)
      from Cons.IH[OF p this] show ?thesis .
    qed
  qed
qed

text \<open>Every name the parser keeps has at least one token.\<close>

lemma parse_tokens_not_empty:
  "parseFiltersFromUrl w ps = Inr obj \<Longrightarrow> p \<in> set obj \<Longrightarrow> snd p \<noteq> []"
  using parse_params_tokens[of w "[]" ps obj]
  by (auto simp add: parseFiltersFromUrl_def Let_def split: if_splits)

text \<open>
  Claim C1. The one token may be the empty string, and a name is kept with it: after a
  change event of a multiple select with no option selected, the address holds the name
  with the empty value, and the filters read from the address list the name with the
  empty string as its token. The name is not removed.
\<close>

theorem multi_select_none_selected_keeps_name:
  "urlFilters (updateUrlFromFilters (select ''brand'' True [(''x'', False), (''y'', False)])
      (page [select ''brand'' True [(''x'', False), (''y'', False)]] [(''brand'', ''x'')]))
     = [(''brand'', '''')]
   \<and> getFiltersFromUrl (updateUrlFromFilters (select ''brand'' True [(''x'', False), (''y'', False)])
        (page [select ''brand'' True [(''x'', False), (''y'', False)]] [(''brand'', ''x'')]))
     = Inr [(''brand'', [''''])]"
proof -
  let ?e = "select ''brand'' True [(''x'', False), (''y'', False)]"
  have u: "updateUrlFromFilters ?e (page [?e] [(''brand'', ''x'')]) = page [?e] [(''brand'', '''')]"
    by (simp add: blank_def select_def page_def updateUrlFromFilters_def update_select_multiple_def
          checkFilterType_def filter_name_def getAttribute_def to_string_def selected_values_def
          usp_delete_def Let_def)
  have q: "document_query (sel_filter (page [?e] [(''brand'', '''')]) ''brand'')
             (page [?e] [(''brand'', '''')]) = Inr (Some 0)"
    by (subst document_query_page)
       (simp_all add: is_plain_char_def select_def getAttribute_def)
  show ?thesis
    unfolding u using q
    by (simp add: getFiltersFromUrl_def parseFiltersFromUrl_def)
qed










section \<open>From the address to the controls\<close>

subsection \<open>Writing one control\<close>

lemma querySelector_Some:
  "querySelector scope sel w = Inr (Some i) \<Longrightarrow> i < length (document w) \<and> scope (document w ! i)"
  by (auto simp: querySelector_def find_Some_iff split: option.splits)

lemma write_filter_value:
  assumes "form_found w" and "form_query (sel_filter w type) w = Inr (Some i)"
    and "checkFilterType (document w ! i) \<in> {SelectSingle, InputType Color, InputType Range,
           InputType Date, InputType Month, InputType Week, InputType Time}"
  shows "write_filter (type, tokens) w = write_value type tokens w"
  using assms by (auto simp: write_filter_def Let_def)

lemma get_value_set_value_input:
  "tagName e = InputTag \<Longrightarrow> itype e \<noteq> Checkbox \<Longrightarrow> itype e \<noteq> Radio \<Longrightarrow>
     get_value (set_value w v e) = sanitize w (static e) v"
  by (simp add: get_value_def set_value_def)

lemma first_selected_deselect [simp]:
  "first_selected (map (\<lambda>y. y\<lparr>selected := False\<rparr>) xs) = []"
  by (induction xs) auto

lemma first_selected_select_value:
  "first_selected (select_value v xs) = (if v \<in> ovalue ` set xs then v else [])"
  by (induction xs) auto

lemma get_value_set_value_select:
  "tagName e = SelectTag \<Longrightarrow>
     get_value (set_value w v e) = (if v \<in> ovalue ` set (options e) then v else [])"
  by (simp add: get_value_def set_value_def first_selected_select_value)

text \<open>
  Claim C3, as the code has it. The write of a single select or of an input of type
  color, range, date, month, week or time assigns the array of tokens to the
  \<^verbatim>\<open>value\<close> property, that is the tokens joined by commas; with one token the string
  is the token, and further tokens are not discarded. A select then shows its option of
  that value, or none; an input holds what the browser's value sanitization makes of the
  string.
\<close>

theorem single_value_write_assigns_joined_tokens:
  assumes "form_found w" and "form_query (sel_filter w type) w = Inr (Some i)"
    and "checkFilterType (document w ! i) \<in> {SelectSingle, InputType Color, InputType Range,
           InputType Date, InputType Month, InputType Week, InputType Time}"
  shows "write_filter (type, tokens) w
           = (w\<lparr>document := (document w)
                  [i := set_value w (join_with '','' tokens) (document w ! i)]\<rparr>, None)
         \<and> (tagName (document w ! i) = SelectTag \<longrightarrow>
               get_value (set_value w (join_with '','' tokens) (document w ! i))
                 = (if join_with '','' tokens \<in> ovalue ` set (options (document w ! i))
                    then join_with '','' tokens else []))
         \<and> (tagName (document w ! i) = InputTag \<longrightarrow>
               get_value (set_value w (join_with '','' tokens) (document w ! i))
                 = sanitize w (static (document w ! i)) (join_with '','' tokens))
         \<and> join_with '','' [t] = t"
proof -
  have a: "write_filter (type, tokens) w = write_value type tokens w"
    using assms by (rule write_filter_value)
  have b: "tagName (document w ! i) = InputTag \<Longrightarrow>
             itype (document w ! i) \<noteq> Checkbox \<and> itype (document w ! i) \<noteq> Radio"
    using assms(3) by (auto simp: checkFilterType_def)
  show ?thesis unfolding a using assms(2) b
    by (simp add: write_value_def array_to_string_def get_value_set_value_input
          get_value_set_value_select)
qed

theorem single_value_write_witness:
  "form_found (page [select ''sort'' False [(''name'', True), (''price'', False)]] [])
   \<and> form_query (sel_filter (page [select ''sort'' False [(''name'', True), (''price'', False)]] [])
        ''sort'')
       (page [select ''sort'' False [(''name'', True), (''price'', False)]] []) = Inr (Some 0)
   \<and> checkFilterType (select ''sort'' False [(''name'', True), (''price'', False)]) = SelectSingle
   \<and> write_filter (''sort'', [''price''])
        (page [select ''sort'' False [(''name'', True), (''price'', False)]] [])
      = (page [select ''sort'' False [(''name'', False), (''price'', True)]] [], None)"
proof -
  let ?w = "page [select ''sort'' False [(''name'', True), (''price'', False)]] []"
  have q: "form_query (sel_filter ?w ''sort'') ?w = Inr (Some 0)"
    by (subst form_query_page)
       (simp_all add: is_plain_char_def select_def blank_def getAttribute_def)
  have c: "checkFilterType (select ''sort'' False [(''name'', True), (''price'', False)]) = SelectSingle"
    by (simp add: checkFilterType_def select_def blank_def)
  show ?thesis
    using single_value_write_assigns_joined_tokens [of ?w "''sort''" 0 "[''price'']"] q c
    by (simp add: set_value_def) (simp add: select_def blank_def)
qed

text \<open>
  Claim C3, as the spec states it, fails. The address \<^verbatim>\<open>?sort=a%20b\<close> gives the single
  select \<open>sort\<close> the tokens \<open>a\<close> and \<open>b\<close>; the write assigns \<open>a,b\<close>, and the select
  shows its option of that value, not the first token.
\<close>

theorem single_value_write_not_first_token:
  "getFiltersFromUrl
     (page [select ''sort'' False [(''a'', False), (''b'', True), (''a,b'', False)]]
        [(''sort'', ''a b'')]) = Inr [(''sort'', [''a'', ''b''])]
   \<and> get_value (document (fst (write_filter (''sort'', [''a'', ''b''])
       (page [select ''sort'' False [(''a'', False), (''b'', True), (''a,b'', False)]]
          [(''sort'', ''a b'')]))) ! 0) = ''a,b''
   \<and> get_value (document (fst (write_filter (''sort'', [''a'', ''b''])
       (page [select ''sort'' False [(''a'', False), (''b'', True), (''a,b'', False)]]
          [(''sort'', ''a b'')]))) ! 0) \<noteq> ''a''"
proof -
  let ?e = "select ''sort'' False [(''a'', False), (''b'', True), (''a,b'', False)]"
  let ?w = "page [?e] [(''sort'', ''a b'')]"
  have d: "document_query (sel_filter ?w ''sort'') ?w = Inr (Some 0)"
    by (subst document_query_page)
       (simp_all add: is_plain_char_def select_def blank_def getAttribute_def)
  have q: "form_query (sel_filter ?w ''sort'') ?w = Inr (Some 0)"
    by (subst form_query_page)
       (simp_all add: is_plain_char_def select_def blank_def getAttribute_def)
  have c: "checkFilterType ?e = SelectSingle"
    by (simp add: checkFilterType_def select_def blank_def)
  have p: "getFiltersFromUrl ?w = Inr [(''sort'', [''a'', ''b''])]"
    using d by (simp add: getFiltersFromUrl_def parseFiltersFromUrl_def)
  have w: "write_filter (''sort'', [''a'', ''b'']) ?w
             = (page [set_value ?w ''a,b'' ?e] [(''sort'', ''a b'')], None)"
    using q c by (simp add: write_filter_def write_value_def array_to_string_def Let_def)
  have g: "get_value (set_value ?w ''a,b'' ?e) = ''a,b''"
    by (simp add: set_value_def get_value_def select_def blank_def)
  show ?thesis using p w g by simp
qed

lemma write_filter_select_multiple:
  assumes "form_found w" and "form_query (sel_filter w type) w = Inr (Some i)"
    and "checkFilterType (document w ! i) = SelectMultiple"
  shows "write_filter (type, tokens) w
           = (w\<lparr>document := (document w)[i := select_options tokens (document w ! i)]\<rparr>, None)"
  using assms by (simp add: write_filter_def write_select_multiple_def Let_def)

text \<open>
  Claim C8. The write of a multiple select raises nothing and touches no other element;
  the select keeps its options and their values; an option whose value is among the
  tokens is selected afterwards, and every other option has the selectedness it had.
\<close>

theorem multi_select_write_only_adds_selections:
  assumes "form_found w" and "form_query (sel_filter w type) w = Inr (Some i)"
    and "checkFilterType (document w ! i) = SelectMultiple"
  shows "snd (write_filter (type, tokens) w) = None
       \<and> length (document (fst (write_filter (type, tokens) w))) = length (document w)
       \<and> (\<forall>k < length (document w). k \<noteq> i \<longrightarrow>
             document (fst (write_filter (type, tokens) w)) ! k = document w ! k)
       \<and> length (options (document (fst (write_filter (type, tokens) w)) ! i))
           = length (options (document w ! i))
       \<and> (\<forall>j < length (options (document w ! i)).
             ovalue (options (document (fst (write_filter (type, tokens) w)) ! i) ! j)
               = ovalue (options (document w ! i) ! j)
             \<and> selected (options (document (fst (write_filter (type, tokens) w)) ! i) ! j)
               = (if ovalue (options (document w ! i) ! j) \<in> set tokens then True
                  else selected (options (document w ! i) ! j)))"
proof -
  have i: "i < length (document w)"
    using assms(2) querySelector_Some[of in_form] by (simp add: form_query_def)
  show ?thesis
    unfolding write_filter_select_multiple[OF assms] using i
    by (simp add: select_options_def indexOf_nonneg_iff)
qed

theorem multi_select_write_witness:
  "form_found (page [select ''tags'' True [(''a'', False), (''b'', True), (''c'', False)]] [])
   \<and> form_query (sel_filter (page [select ''tags'' True [(''a'', False), (''b'', True), (''c'', False)]] [])
        ''tags'')
     (page [select ''tags'' True [(''a'', False), (''b'', True), (''c'', False)]] []) = Inr (Some 0)
   \<and> checkFilterType (select ''tags'' True [(''a'', False), (''b'', True), (''c'', False)])
       = SelectMultiple
   \<and> write_filter (''tags'', [''c'', ''x''])
       (page [select ''tags'' True [(''a'', False), (''b'', True), (''c'', False)]] [])
      = (page [select ''tags'' True [(''a'', False), (''b'', True), (''c'', True)]] [], None)
   \<and> map selected (options (document (fst (write_filter (''tags'', [''c'', ''x''])
       (page [select ''tags'' True [(''a'', False), (''b'', True), (''c'', False)]] []))) ! 0))
      = [False, True, True]"
proof -
  let ?e = "select ''tags'' True [(''a'', False), (''b'', True), (''c'', False)]"
  let ?w = "page [?e] []"
  have q: "form_query (sel_filter ?w ''tags'') ?w = Inr (Some 0)"
    by (subst form_query_page)
       (simp_all add: is_plain_char_def select_def blank_def getAttribute_def)
  have c: "checkFilterType ?e = SelectMultiple"
    by (simp add: checkFilterType_def select_def blank_def)
  have s: "select_options [''c'', ''x''] ?e
             = select ''tags'' True [(''a'', False), (''b'', True), (''c'', True)]"
    by (simp add: select_options_def select_def blank_def)
  have w: "write_filter (''tags'', [''c'', ''x'']) ?w
             = (page [select ''tags'' True [(''a'', False), (''b'', True), (''c'', True)]] [], None)"
    using q c s by (simp add: write_filter_def write_select_multiple_def Let_def)
  show ?thesis
    using multi_select_write_only_adds_selections [of ?w "''tags''" 0 "[''c'', ''x'']"] q c w
    by (simp add: select_def)
qed

subsection \<open>Radio buttons\<close>

text \<open>
  Whenever the selector with the name and the tokens finds no element in the form, the
  write of a radio button raises and leaves the page as it was.
\<close>

lemma write_radio_without_match:
  assumes "form_found w" and "form_query (sel_filter w type) w = Inr (Some i)"
    and "checkFilterType (document w ! i) = InputType Radio"
    and "form_query (sel_filter_value w type (array_to_string tokens)) w = Inr None"
  shows "write_filter (type, tokens) w = (w, Some TypeError)"
  using assms by (simp add: write_filter_def write_radio_def Let_def)

text \<open>
  Claim C2. A radio group with the values \<open>s\<close> and \<open>m\<close> and the address
  \<^verbatim>\<open>?size=xl\<close>: no member has the value, the selector finds nothing, and the
  assignment to \<^verbatim>\<open>checked\<close> of \<^verbatim>\<open>null\<close> raises a TypeError. The controls are
  unchanged, but the write is not silent.
\<close>

theorem radio_without_match_raises:
  "updateFilters (page [radio ''size'' ''s'' False, radio ''size'' ''m'' False] [(''size'', ''xl'')])
     = (page [radio ''size'' ''s'' False, radio ''size'' ''m'' False] [(''size'', ''xl'')],
        Some TypeError)"
proof -
  let ?w = "page [radio ''size'' ''s'' False, radio ''size'' ''m'' False] [(''size'', ''xl'')]"
  have d: "document_query (sel_filter ?w ''size'') ?w = Inr (Some 0)"
    by (subst document_query_page)
       (simp_all add: is_plain_char_def radio_def blank_def getAttribute_def upt_rec)
  have q: "form_query (sel_filter ?w ''size'') ?w = Inr (Some 0)"
    by (subst form_query_page)
       (simp_all add: is_plain_char_def radio_def blank_def getAttribute_def upt_rec)
  have v: "form_query (sel_filter_value ?w ''size'' ''xl'') ?w = Inr None"
    by (subst form_query_value_page)
       (simp_all add: is_plain_char_def radio_def blank_def getAttribute_def upt_rec)
  have p: "parseFiltersFromUrl ?w [(''size'', ''xl'')] = Inr [(''size'', [''xl''])]"
    using d by (simp add: parseFiltersFromUrl_def)
  have e: "obj_entries [(''size'', [''xl''])] = [(''size'', [''xl''])]"
    by (simp add: obj_entries_def is_array_index_def is_digit_def)
  have c: "checkFilterType (radio ''size'' ''s'' False) = InputType Radio"
    by (simp add: checkFilterType_def radio_def blank_def)
  have f: "write_filter (''size'', [''xl'']) ?w = (?w, Some TypeError)"
    using q v c by (simp add: write_filter_def write_radio_def array_to_string_def Let_def)
  show ?thesis
    by (simp add: updateFilters_def updateFiltersFromUrl_def p e f obj_keys_def)
qed

section \<open>Refreshing the controls twice\<close>

text \<open>
  Every write of \<^verbatim>\<open>_updateFiltersFromUrl\<close> assigns a constant to a property, and the
  elements it writes to are the ones its lookups find. When the lookups read attributes
  alone, a run applies one mask to each element, the same on every world alike, and ends
  the same way on all of them; applying a mask twice is applying it once. When a lookup
  reads the state that the run itself writes, the second run can find another element.
\<close>

subsection \<open>Masks\<close>

lemma length_apply_mask_options [simp]:
  "length (options (apply_mask m e)) = length (options e)"
  by (simp add: apply_mask_def)

lemma nth_apply_mask_options:
  "j < length (options e) \<Longrightarrow>
     options (apply_mask m e) ! j
       = (case m_selected m j of None \<Rightarrow> options e ! j
          | Some b \<Rightarrow> (options e ! j)\<lparr>selected := b\<rparr>)"
  by (simp add: apply_mask_def split: option.splits)

lemma static_apply_mask [simp]: "static (apply_mask m e) = static e"
proof -
  have "map (\<lambda>opt. opt\<lparr>selected := False\<rparr>) (options (apply_mask m e))
          = map (\<lambda>opt. opt\<lparr>selected := False\<rparr>) (options e)"
    by (rule nth_equalityI) (auto simp: nth_apply_mask_options split: option.splits)
  then show ?thesis by (simp add: static_def) (simp add: apply_mask_def)
qed

lemma length_apply_masks [simp]: "length (apply_masks M es) = length es"
  by (simp add: apply_masks_def)

lemma nth_apply_masks [simp]:
  "i < length es \<Longrightarrow> apply_masks M es ! i = apply_mask (M i) (es ! i)"
  by (simp add: apply_masks_def)

lemma map_static_apply_masks [simp]: "map static (apply_masks M es) = map static es"
  by (rule nth_equalityI) simp_all

lemma apply_mask_no_mask [simp]: "apply_mask no_mask e = e"
proof -
  have "map (\<lambda>j. options e ! j) [0..<length (options e)] = options e"
    by (rule map_nth)
  then show ?thesis by (simp add: apply_mask_def no_mask_def)
qed

lemma apply_masks_no_mask [simp]: "apply_masks (\<lambda>i. no_mask) es = es"
  by (rule nth_equalityI) simp_all

lemma apply_mask_then: "apply_mask m2 (apply_mask m1 e) = apply_mask (then_mask m1 m2) e"
proof (rule element.equality)
  show "options (apply_mask m2 (apply_mask m1 e)) = options (apply_mask (then_mask m1 m2) e)"
    by (rule nth_equalityI)
       (auto simp: nth_apply_mask_options then_mask_def split: option.splits)
qed (simp_all add: apply_mask_def then_mask_def split: option.splits)

lemma then_mask_same [simp]: "then_mask m m = m"
  by (rule mask.equality) (auto simp: then_mask_def split: option.splits)

lemma apply_mask_idem: "apply_mask m (apply_mask m e) = apply_mask m e"
  by (simp add: apply_mask_then)



subsection \<open>Steps that apply masks\<close>









subsection \<open>Lookups that read attributes alone\<close>

lemma static_fields [simp]:
  "tagName (static e) = tagName e" "itype (static e) = itype e"
  "multiple (static e) = multiple e" "in_form (static e) = in_form e"
  "attributes (static e) = attributes e"
  "map ovalue (options (static e)) = map ovalue (options e)"
  by (simp_all add: static_def o_def)

lemma getAttribute_static [simp]: "getAttribute a (static e) = getAttribute a e"
  by (simp add: getAttribute_def)


lemma same_radio_group_static [simp]:
  "same_radio_group (static a) (static b) = same_radio_group a b"
  by (simp add: same_radio_group_def is_radio_def)

lemma static_static [simp]: "static (static e) = static e"
  by (simp add: static_def o_def)








subsection \<open>Assigning checked\<close>

lemma apply_check_mask [simp]: "apply_mask (check_mask b) e = e\<lparr>checked := b\<rparr>"
proof -
  have "map (\<lambda>j. options e ! j) [0..<length (options e)] = options e"
    by (rule map_nth)
  then show ?thesis by (simp add: apply_mask_def check_mask_def no_mask_def)
qed



subsection \<open>Assigning value\<close>









subsection \<open>Assigning selected\<close>


subsection \<open>The writes of the class\<close>











subsection \<open>The parser on worlds alike\<close>







subsection \<open>The refresh\<close>





subsection \<open>The example host reads attributes on plain names and tokens\<close>







end
